theory Spec2Isabelle
  imports Main "HOL-Library.Word"
begin

section \<open>Vertex buffer interfaces of the D3D renderer (VertexBuffer.cpp)\<close>

text \<open>
  A shallow embedding of \<^verbatim>\<open>src/libANGLE/renderer/d3d/VertexBuffer.cpp\<close>: the serial
  counter of \<^verbatim>\<open>VertexBuffer\<close>, the space computation of \<^verbatim>\<open>VertexBufferInterface\<close>,
  the bump allocator \<^verbatim>\<open>StreamingVertexBufferInterface\<close> and the signature cache of
  \<^verbatim>\<open>StaticVertexBufferInterface\<close>.

  Member functions become functions that take the object and return the updated object
  beside their result. A \<^verbatim>\<open>gl::Error\<close> return is a sum: \<open>Inl\<close> the error, \<open>Inr\<close> the
  value (\<open>Inr ()\<close> for \<^verbatim>\<open>gl::NoError()\<close>); \<^verbatim>\<open>ANGLE_TRY\<close> is the early return on \<open>Inl\<close>.
  The \<^verbatim>\<open>gl::Context\<close> pointer is only handed on to the collaborators and is left out.
\<close>

subsection \<open>Machine types\<close>

text \<open>
  \<^verbatim>\<open>unsigned int\<close>, \<^verbatim>\<open>GLuint\<close> and \<^verbatim>\<open>GLenum\<close> are 32-bit words, whose \<open>+\<close> and \<open>*\<close> wrap
  and whose order and division are unsigned; \<^verbatim>\<open>GLint\<close> and \<^verbatim>\<open>GLsizei\<close> are 32-bit words
  read as two's complement. \<^verbatim>\<open>size_t\<close> and \<^verbatim>\<open>GLintptr\<close> are taken at 64 bits.
\<close>

type_synonym uint = "32 word"
type_synonym GLuint = "32 word"
type_synonym GLenum = "32 word"
type_synonym GLint = "32 word"
type_synonym GLsizei = "32 word"
type_synonym size_t = "64 word"
type_synonym GLintptr = "64 word"
type_synonym uint8_t = "8 word"

definition GL_NONE :: GLenum where
  "GL_NONE = 0"

definition GL_OUT_OF_MEMORY :: GLenum where
  "GL_OUT_OF_MEMORY = 0x0505"

subsection \<open>Errors\<close>

text \<open>
  A \<^verbatim>\<open>gl::Error\<close> carries a GL error code and a message; \<^verbatim>\<open>gl::OutOfMemory() << msg\<close>
  is the error with code \<^verbatim>\<open>GL_OUT_OF_MEMORY\<close> and that message.
\<close>

datatype Error = Error GLenum string

definition OutOfMemory :: "string \<Rightarrow> Error" where
  "OutOfMemory msg = Error GL_OUT_OF_MEMORY msg"

text \<open>The stream operator \<^verbatim>\<open><<\<close> appends an unsigned number to a message in decimal.\<close>

definition digit :: "nat \<Rightarrow> char" where
  "digit d = char_of (48 + d)"

fun decimal :: "nat \<Rightarrow> string" where
  "decimal n = (if n < 10 then [digit n] else decimal (n div 10) @ [digit (n mod 10)])"

subsection \<open>The collaborators\<close>

text \<open>
  \<^verbatim>\<open>gl::VertexAttribute\<close> (libANGLE/VertexAttribute.h) with the fields this file reads.
  The binding \<^verbatim>\<open>gl::VertexBinding\<close> is only handed to collaborators: it is the type
  parameter \<open>'bd\<close> throughout.
\<close>

record VertexAttribute =
  attrib_enabled :: bool
  attrib_type :: GLenum
  attrib_size :: GLuint
  attrib_normalized :: bool
  attrib_pureInteger :: bool

text \<open>
  \<^verbatim>\<open>VertexBuffer\<close> is an abstract class: \<^verbatim>\<open>initialize\<close>, \<^verbatim>\<open>storeVertexAttributes\<close>,
  \<^verbatim>\<open>getBufferSize\<close>, \<^verbatim>\<open>setBufferSize\<close>, \<^verbatim>\<open>discard\<close> and \<^verbatim>\<open>hintUnmapResource\<close> are
  implemented by the D3D9 and D3D11 back ends, outside this file. They are taken as a
  parameter: a record of the virtual functions over the back end's buffer state \<open>'vb\<close>.
  A function that can fail returns its result and the buffer as the call left it.
\<close>

record ('vb, 'bd) VertexBuffer =
  VertexBuffer_initialize :: "uint \<Rightarrow> bool \<Rightarrow> 'vb \<Rightarrow> (Error + unit) \<times> 'vb"
  VertexBuffer_storeVertexAttributes ::
    "VertexAttribute \<Rightarrow> 'bd \<Rightarrow> GLenum \<Rightarrow> GLint \<Rightarrow> size_t \<Rightarrow> GLsizei \<Rightarrow> uint \<Rightarrow> uint8_t list
       \<Rightarrow> 'vb \<Rightarrow> (Error + unit) \<times> 'vb"
  VertexBuffer_getBufferSize :: "'vb \<Rightarrow> uint"
  VertexBuffer_setBufferSize :: "uint \<Rightarrow> 'vb \<Rightarrow> (Error + unit) \<times> 'vb"
  VertexBuffer_discard :: "'vb \<Rightarrow> (Error + unit) \<times> 'vb"
  VertexBuffer_hintUnmapResource :: "'vb \<Rightarrow> 'vb"

text \<open>
  \<^verbatim>\<open>BufferFactoryD3D\<close>, the renderer: \<^verbatim>\<open>createVertexBuffer\<close> and the const function
  \<^verbatim>\<open>getVertexSpaceRequired(context, attrib, binding, count, instances, &bytes)\<close>, which
  returns the unaligned byte requirement or an error. Also a parameter.
\<close>

record ('vb, 'bd) BufferFactoryD3D =
  createVertexBuffer :: "'vb"
  getVertexSpaceRequired :: "VertexAttribute \<Rightarrow> 'bd \<Rightarrow> size_t \<Rightarrow> GLsizei \<Rightarrow> Error + uint"

subsection \<open>Helpers of common/mathutil.h\<close>

text \<open>
  Modelled from the spec: \<^verbatim>\<open>roundUp\<close> of common/mathutil.h, which is not under src/.
  The spec (4.1) has the byte requirement rounded "up to the next multiple of 16", in the
  counter itself: the aligned result can come out "smaller than the unaligned result
  (wraparound)". So the value is moved up by \<open>alignment - 1\<close> and cut down to a multiple
  of the alignment, all in 32-bit arithmetic.
\<close>

definition roundUp :: "uint \<Rightarrow> uint \<Rightarrow> uint" where
  "roundUp val alignment = (let temp = val + alignment - 1 in temp - temp mod alignment)"

text \<open>
  Modelled from the spec: \<^verbatim>\<open>angle::CheckedNumeric<unsigned int>\<close> and \<^verbatim>\<open>rx::CheckedRoundUp\<close>,
  not under src/. The spec (9) describes the wrapper as checked arithmetic "returning a
  result-or-overflow value": \<open>None\<close> is the invalid state, which every later operation
  keeps; \<^verbatim>\<open>IsValid()\<close> is \<open>\<noteq> None\<close> and \<^verbatim>\<open>ValueOrDie()\<close> reads the value.
\<close>

type_synonym CheckedNumeric = "uint option"

definition CheckedAdd :: "CheckedNumeric \<Rightarrow> uint \<Rightarrow> CheckedNumeric" where
  "CheckedAdd c x =
     (case c of
        None \<Rightarrow> None
      | Some v \<Rightarrow> if unat v + unat x < 2 ^ 32 then Some (v + x) else None)"

definition CheckedRoundUp :: "uint \<Rightarrow> uint \<Rightarrow> CheckedNumeric" where
  "CheckedRoundUp val alignment =
     (if alignment = 0 then None
      else case CheckedAdd (Some val) (alignment - 1) of
             None \<Rightarrow> None
           | Some temp \<Rightarrow> Some (temp - temp mod alignment))"

subsection \<open>VertexBuffer: the serial counter\<close>

text \<open>
  The base class part of a \<^verbatim>\<open>VertexBuffer\<close>. The static \<^verbatim>\<open>mNextSerial\<close> (initially 1) is
  passed to the functions that use it and returned updated.
\<close>

record VertexBufferBase =
  mSerial :: uint
  mRefCount :: uint

definition mNextSerial_init :: uint where
  "mNextSerial_init = 1"

definition updateSerial :: "VertexBufferBase \<Rightarrow> uint \<Rightarrow> VertexBufferBase \<times> uint" where
  "updateSerial vb mNextSerial = (vb\<lparr>mSerial := mNextSerial\<rparr>, mNextSerial + 1)"

definition VertexBuffer_ctor :: "uint \<Rightarrow> VertexBufferBase \<times> uint" where
  "VertexBuffer_ctor mNextSerial = updateSerial \<lparr>mSerial = 0, mRefCount = 1\<rparr> mNextSerial"

definition getSerial :: "VertexBufferBase \<Rightarrow> uint" where
  "getSerial vb = mSerial vb"

text \<open>
  A process that constructs \<open>n\<close> vertex buffers one after the other, from the counter
  value \<open>mNextSerial\<close>: the buffers in order of construction.
\<close>

fun constructed :: "nat \<Rightarrow> uint \<Rightarrow> VertexBufferBase list" where
  "constructed 0 mNextSerial = []"
| "constructed (Suc n) mNextSerial =
     (case VertexBuffer_ctor mNextSerial of (vb, next) \<Rightarrow> vb # constructed n next)"

subsection \<open>VertexBufferInterface\<close>

record 'vb VertexBufferInterface =
  mVertexBuffer :: 'vb
  mDynamic :: bool

definition VertexBufferInterface_ctor ::
  "('vb, 'bd) BufferFactoryD3D \<Rightarrow> bool \<Rightarrow> 'vb VertexBufferInterface" where
  "VertexBufferInterface_ctor factory dynamic =
     \<lparr>mVertexBuffer = createVertexBuffer factory, mDynamic = dynamic\<rparr>"

definition getBufferSize ::
  "('vb, 'bd) VertexBuffer \<Rightarrow> ('vb, 'z) VertexBufferInterface_scheme \<Rightarrow> uint" where
  "getBufferSize V this = VertexBuffer_getBufferSize V (mVertexBuffer this)"

definition setBufferSize ::
  "('vb, 'bd) VertexBuffer \<Rightarrow> uint \<Rightarrow> ('vb, 'z) VertexBufferInterface_scheme
     \<Rightarrow> (Error + unit) \<times> ('vb, 'z) VertexBufferInterface_scheme" where
  "setBufferSize V sz this =
     (if VertexBuffer_getBufferSize V (mVertexBuffer this) = 0
      then (case VertexBuffer_initialize V sz (mDynamic this) (mVertexBuffer this) of
              (r, vb) \<Rightarrow> (r, this\<lparr>mVertexBuffer := vb\<rparr>))
      else (case VertexBuffer_setBufferSize V sz (mVertexBuffer this) of
              (r, vb) \<Rightarrow> (r, this\<lparr>mVertexBuffer := vb\<rparr>)))"

definition getSpaceRequired ::
  "('vb, 'bd) BufferFactoryD3D \<Rightarrow> VertexAttribute \<Rightarrow> 'bd \<Rightarrow> size_t \<Rightarrow> GLsizei \<Rightarrow> Error + uint" where
  "getSpaceRequired factory attrib binding count instances =
     (case getVertexSpaceRequired factory attrib binding count instances of
        Inl e \<Rightarrow> Inl e
      | Inr spaceRequired \<Rightarrow>
          (let alignedSpaceRequired = roundUp spaceRequired 16 in
           if alignedSpaceRequired < spaceRequired
           then Inl (OutOfMemory
                  ''Vertex buffer overflow in VertexBufferInterface::getSpaceRequired.'')
           else Inr alignedSpaceRequired))"

definition discard ::
  "('vb, 'bd) VertexBuffer \<Rightarrow> ('vb, 'z) VertexBufferInterface_scheme
     \<Rightarrow> (Error + unit) \<times> ('vb, 'z) VertexBufferInterface_scheme" where
  "discard V this =
     (case VertexBuffer_discard V (mVertexBuffer this) of
        (r, vb) \<Rightarrow> (r, this\<lparr>mVertexBuffer := vb\<rparr>))"

subsection \<open>StreamingVertexBufferInterface\<close>

record 'vb StreamingVertexBufferInterface = "'vb VertexBufferInterface" +
  mWritePosition :: uint
  mReservedSpace :: uint

definition StreamingVertexBufferInterface_ctor ::
  "('vb, 'bd) BufferFactoryD3D \<Rightarrow> 'vb StreamingVertexBufferInterface" where
  "StreamingVertexBufferInterface_ctor factory =
     VertexBufferInterface.extend (VertexBufferInterface_ctor factory True)
       (StreamingVertexBufferInterface.fields 0 0)"

definition initialize ::
  "('vb, 'bd) VertexBuffer \<Rightarrow> size_t \<Rightarrow> 'vb StreamingVertexBufferInterface
     \<Rightarrow> (Error + unit) \<times> 'vb StreamingVertexBufferInterface" where
  "initialize V initialSize this = setBufferSize V (ucast initialSize) this"

definition reserveSpace ::
  "('vb, 'bd) VertexBuffer \<Rightarrow> uint \<Rightarrow> 'vb StreamingVertexBufferInterface
     \<Rightarrow> (Error + unit) \<times> 'vb StreamingVertexBufferInterface" where
  "reserveSpace V sz this =
     (let curBufferSize = getBufferSize V this in
      if sz > curBufferSize
      then (case setBufferSize V (max sz (3 * curBufferSize div 2)) this of
              (Inl e, this') \<Rightarrow> (Inl e, this')
            | (Inr u, this') \<Rightarrow> (Inr (), this'\<lparr>mWritePosition := 0\<rparr>))
      else if mWritePosition this + sz > curBufferSize
      then (case discard V this of
              (Inl e, this') \<Rightarrow> (Inl e, this')
            | (Inr u, this') \<Rightarrow> (Inr (), this'\<lparr>mWritePosition := 0\<rparr>))
      else (Inr (), this))"

text \<open>
  The value \<open>Inr offset\<close> is what a successful call writes to \<^verbatim>\<open>*outStreamOffset\<close> (when
  that pointer is not null): the write position before it is advanced.
\<close>

definition storeDynamicAttribute ::
  "('vb, 'bd) BufferFactoryD3D \<Rightarrow> ('vb, 'bd) VertexBuffer \<Rightarrow> VertexAttribute \<Rightarrow> 'bd \<Rightarrow> GLenum
     \<Rightarrow> GLint \<Rightarrow> size_t \<Rightarrow> GLsizei \<Rightarrow> uint8_t list \<Rightarrow> 'vb StreamingVertexBufferInterface
     \<Rightarrow> (Error + uint) \<times> 'vb StreamingVertexBufferInterface" where
  "storeDynamicAttribute factory V attrib binding currentValueType start count instances
       sourceData this =
     (case getSpaceRequired factory attrib binding count instances of
        Inl e \<Rightarrow> (Inl e, this)
      | Inr spaceRequired \<Rightarrow>
          (case CheckedAdd (Some (mWritePosition this)) spaceRequired of
             None \<Rightarrow>
               (Inl (OutOfMemory
                  ''Internal error, new vertex buffer write position would overflow.''), this)
           | Some checkedPosition \<Rightarrow>
               (case reserveSpace V (mReservedSpace this) this of
                  (Inl e, this1) \<Rightarrow> (Inl e, this1)
                | (Inr u, this1) \<Rightarrow>
                    (let this2 = this1\<lparr>mReservedSpace := 0\<rparr> in
                     case VertexBuffer_storeVertexAttributes V attrib binding currentValueType
                            start count instances (mWritePosition this2) sourceData
                            (mVertexBuffer this2) of
                       (Inl e, vb) \<Rightarrow> (Inl e, this2\<lparr>mVertexBuffer := vb\<rparr>)
                     | (Inr u', vb) \<Rightarrow>
                         (Inr (mWritePosition this2),
                          this2\<lparr>mVertexBuffer := vb,
                                mWritePosition := mWritePosition this2 + spaceRequired\<rparr>)))))"

definition reserveVertexSpace ::
  "('vb, 'bd) BufferFactoryD3D \<Rightarrow> VertexAttribute \<Rightarrow> 'bd \<Rightarrow> size_t \<Rightarrow> GLsizei
     \<Rightarrow> 'vb StreamingVertexBufferInterface
     \<Rightarrow> (Error + unit) \<times> 'vb StreamingVertexBufferInterface" where
  "reserveVertexSpace factory attrib binding count instances this =
     (case getVertexSpaceRequired factory attrib binding count instances of
        Inl e \<Rightarrow> (Inl e, this)
      | Inr requiredSpace \<Rightarrow>
          (case CheckedAdd (CheckedRoundUp requiredSpace 16) (mReservedSpace this) of
             None \<Rightarrow>
               (Inl (OutOfMemory
                  (''Unable to reserve '' @ decimal (unat requiredSpace) @
                   '' extra bytes in internal vertex buffer, it would result in an overflow.'')),
                this)
           | Some alignedRequiredSpace \<Rightarrow>
               (Inr (), this\<lparr>mReservedSpace := alignedRequiredSpace\<rparr>)))"

subsection \<open>StaticVertexBufferInterface\<close>

text \<open>
  \<^verbatim>\<open>ComputeVertexAttributeStride\<close> and \<^verbatim>\<open>ComputeVertexAttributeOffset\<close> are declared in
  libANGLE/VertexAttribute.h, outside this file, and are taken as a parameter. The stride
  is an unsigned 32-bit quantity handed over as \<^verbatim>\<open>size_t\<close>: the signature keeps it in a
  \<^verbatim>\<open>GLuint\<close> field through \<^verbatim>\<open>static_cast<GLuint>\<close> and compares that field with it again.
  The offset is a \<^verbatim>\<open>GLintptr\<close>; \<^verbatim>\<open>static_cast<size_t>\<close> keeps its 64 bits, and from there
  on the code reads it as unsigned (\<open>mod\<close> on words is the unsigned remainder).
\<close>

record 'bd VertexAttributeFunctions =
  VertexAttributeStride :: "VertexAttribute \<Rightarrow> 'bd \<Rightarrow> GLuint"
  ComputeVertexAttributeOffset :: "VertexAttribute \<Rightarrow> 'bd \<Rightarrow> GLintptr"

definition ComputeVertexAttributeStride ::
  "'bd VertexAttributeFunctions \<Rightarrow> VertexAttribute \<Rightarrow> 'bd \<Rightarrow> size_t" where
  "ComputeVertexAttributeStride H attrib binding = ucast (VertexAttributeStride H attrib binding)"

text \<open>
  What stops a call without a result: the integer division by zero of \<^verbatim>\<open>%\<close> (undefined
  behaviour, a hardware trap), and a failed \<^verbatim>\<open>ASSERT\<close> in a build with assertions.
\<close>

datatype Trap = DivisionByZero | AssertionFailure

record AttributeSignature =
  sig_type :: GLenum
  sig_size :: GLuint
  sig_stride :: GLuint
  sig_normalized :: bool
  sig_pureInteger :: bool
  sig_offset :: size_t

definition AttributeSignature_ctor :: AttributeSignature where
  "AttributeSignature_ctor =
     \<lparr>sig_type = GL_NONE, sig_size = 0, sig_stride = 0, sig_normalized = False,
      sig_pureInteger = False, sig_offset = 0\<rparr>"

definition AttributeSignature_matchesAttribute ::
  "'bd VertexAttributeFunctions \<Rightarrow> AttributeSignature \<Rightarrow> VertexAttribute \<Rightarrow> 'bd \<Rightarrow> Trap + bool" where
  "AttributeSignature_matchesAttribute H this attrib binding =
     (let attribStride = ComputeVertexAttributeStride H attrib binding in
      if sig_type this \<noteq> attrib_type attrib \<or> sig_size this \<noteq> attrib_size attrib \<or>
         (ucast (sig_stride this) :: size_t) \<noteq> attribStride \<or>
         sig_normalized this \<noteq> attrib_normalized attrib \<or>
         sig_pureInteger this \<noteq> attrib_pureInteger attrib
      then Inr False
      else if attribStride = 0 then Inl DivisionByZero
      else (let attribOffset = ComputeVertexAttributeOffset H attrib binding mod attribStride
            in Inr (sig_offset this = attribOffset)))"

definition AttributeSignature_set ::
  "'bd VertexAttributeFunctions \<Rightarrow> VertexAttribute \<Rightarrow> 'bd \<Rightarrow> AttributeSignature
     \<Rightarrow> Trap + AttributeSignature" where
  "AttributeSignature_set H attrib binding this =
     (let this1 = this\<lparr>sig_type := attrib_type attrib, sig_size := attrib_size attrib,
                       sig_normalized := attrib_normalized attrib,
                       sig_pureInteger := attrib_pureInteger attrib\<rparr>;
          stride = (ucast (ComputeVertexAttributeStride H attrib binding) :: GLuint);
          this2 = this1\<lparr>sig_stride := stride, sig_offset := ucast stride\<rparr>
      in if ComputeVertexAttributeStride H attrib binding = 0 then Inl DivisionByZero
         else Inr (this2\<lparr>sig_offset := ComputeVertexAttributeOffset H attrib binding mod
                                         ComputeVertexAttributeStride H attrib binding\<rparr>))"

record 'vb StaticVertexBufferInterface = "'vb VertexBufferInterface" +
  mSignature :: AttributeSignature

definition StaticVertexBufferInterface_ctor ::
  "('vb, 'bd) BufferFactoryD3D \<Rightarrow> 'vb StaticVertexBufferInterface" where
  "StaticVertexBufferInterface_ctor factory =
     VertexBufferInterface.extend (VertexBufferInterface_ctor factory False)
       (StaticVertexBufferInterface.fields AttributeSignature_ctor)"

definition matchesAttribute ::
  "'bd VertexAttributeFunctions \<Rightarrow> 'vb StaticVertexBufferInterface \<Rightarrow> VertexAttribute \<Rightarrow> 'bd
     \<Rightarrow> Trap + bool" where
  "matchesAttribute H this attrib binding =
     AttributeSignature_matchesAttribute H (mSignature this) attrib binding"

definition setAttribute ::
  "'bd VertexAttributeFunctions \<Rightarrow> VertexAttribute \<Rightarrow> 'bd \<Rightarrow> 'vb StaticVertexBufferInterface
     \<Rightarrow> Trap + 'vb StaticVertexBufferInterface" where
  "setAttribute H attrib binding this =
     (case AttributeSignature_set H attrib binding (mSignature this) of
        Inl t \<Rightarrow> Inl t
      | Inr s \<Rightarrow> Inr (this\<lparr>mSignature := s\<rparr>))"

text \<open>
  \<^verbatim>\<open>ASSERT(attrib.enabled)\<close> stops the call in a build with assertions
  (\<open>assertsEnabled\<close>) and is no code at all otherwise. The \<^verbatim>\<open>GLsizei count\<close> is converted
  to the \<^verbatim>\<open>size_t\<close> parameter of the callees, which extends its sign.
\<close>

definition storeStaticAttribute ::
  "('vb, 'bd) BufferFactoryD3D \<Rightarrow> ('vb, 'bd) VertexBuffer \<Rightarrow> 'bd VertexAttributeFunctions \<Rightarrow> bool
     \<Rightarrow> VertexAttribute \<Rightarrow> 'bd \<Rightarrow> GLint \<Rightarrow> GLsizei \<Rightarrow> GLsizei \<Rightarrow> uint8_t list
     \<Rightarrow> 'vb StaticVertexBufferInterface
     \<Rightarrow> Trap + ((Error + unit) \<times> 'vb StaticVertexBufferInterface)" where
  "storeStaticAttribute factory V H assertsEnabled attrib binding start count instances
       sourceData this =
     (case getSpaceRequired factory attrib binding (scast count) instances of
        Inl e \<Rightarrow> Inr (Inl e, this)
      | Inr spaceRequired \<Rightarrow>
          (case setBufferSize V spaceRequired this of
             (Inl e, this1) \<Rightarrow> Inr (Inl e, this1)
           | (Inr u, this1) \<Rightarrow>
               if assertsEnabled \<and> \<not> attrib_enabled attrib then Inl AssertionFailure
               else
                 (case VertexBuffer_storeVertexAttributes V attrib binding GL_NONE start
                         (scast count) instances 0 sourceData (mVertexBuffer this1) of
                    (Inl e, vb) \<Rightarrow> Inr (Inl e, this1\<lparr>mVertexBuffer := vb\<rparr>)
                  | (Inr u', vb) \<Rightarrow>
                      (case AttributeSignature_set H attrib binding (mSignature this1) of
                         Inl t \<Rightarrow> Inl t
                       | Inr s \<Rightarrow>
                           Inr (Inr (),
                                this1\<lparr>mVertexBuffer := VertexBuffer_hintUnmapResource V vb,
                                      mSignature := s\<rparr>)))))"

subsection \<open>The paths of reserveSpace, and sequences of stores\<close>

text \<open>
  Which branch \<^verbatim>\<open>reserveSpace(size)\<close> takes, by its two conditions: the first branch
  resizes the buffer (grow), the second discards its content, and otherwise nothing is
  done.
\<close>

datatype ReservePath = Grow | Discard | Keep

definition reservePath ::
  "('vb, 'bd) VertexBuffer \<Rightarrow> uint \<Rightarrow> 'vb StreamingVertexBufferInterface \<Rightarrow> ReservePath" where
  "reservePath V sz this =
     (let curBufferSize = getBufferSize V this in
      if sz > curBufferSize then Grow
      else if mWritePosition this + sz > curBufferSize then Discard
      else Keep)"

text \<open>The arguments of one \<^verbatim>\<open>storeDynamicAttribute\<close> call.\<close>

record 'bd StoreCall =
  call_attrib :: VertexAttribute
  call_binding :: 'bd
  call_currentValueType :: GLenum
  call_start :: GLint
  call_count :: size_t
  call_instances :: GLsizei
  call_sourceData :: "uint8_t list"

definition storeCall ::
  "('vb, 'bd) BufferFactoryD3D \<Rightarrow> ('vb, 'bd) VertexBuffer \<Rightarrow> 'bd StoreCall
     \<Rightarrow> 'vb StreamingVertexBufferInterface
     \<Rightarrow> (Error + uint) \<times> 'vb StreamingVertexBufferInterface" where
  "storeCall factory V c this =
     storeDynamicAttribute factory V (call_attrib c) (call_binding c) (call_currentValueType c)
       (call_start c) (call_count c) (call_instances c) (call_sourceData c) this"

definition callSpace :: "('vb, 'bd) BufferFactoryD3D \<Rightarrow> 'bd StoreCall \<Rightarrow> Error + uint" where
  "callSpace factory c =
     getSpaceRequired factory (call_attrib c) (call_binding c) (call_count c) (call_instances c)"

text \<open>
  A sequence of \<^verbatim>\<open>storeDynamicAttribute\<close> calls on one interface: the byte range of
  every call, as the returned offset and the aligned size of the call; \<open>None\<close> when a call
  fails and returns no offset.
\<close>

fun storeSequence ::
  "('vb, 'bd) BufferFactoryD3D \<Rightarrow> ('vb, 'bd) VertexBuffer \<Rightarrow> 'bd StoreCall list
     \<Rightarrow> 'vb StreamingVertexBufferInterface \<Rightarrow> (uint \<times> uint) list option" where
  "storeSequence factory V [] this = Some []"
| "storeSequence factory V (c # cs) this =
     (case storeCall factory V c this of
        (Inl e, this') \<Rightarrow> None
      | (Inr offset, this') \<Rightarrow>
          (case callSpace factory c of
             Inl e \<Rightarrow> None
           | Inr spaceRequired \<Rightarrow>
               map_option (Cons (offset, spaceRequired)) (storeSequence factory V cs this')))"

text \<open>
  Consecutive byte ranges: every range ends where the next one starts, as numbers (no
  wrap-around).
\<close>

definition adjacent :: "(uint \<times> uint) list \<Rightarrow> bool" where
  "adjacent rs \<longleftrightarrow>
     (\<forall>i. Suc i < length rs \<longrightarrow>
        unat (fst (rs ! i)) + unat (snd (rs ! i)) = unat (fst (rs ! Suc i)))"

text \<open>No call of the sequence discards or grows the buffer.\<close>

fun undisturbed ::
  "('vb, 'bd) BufferFactoryD3D \<Rightarrow> ('vb, 'bd) VertexBuffer \<Rightarrow> 'bd StoreCall list
     \<Rightarrow> 'vb StreamingVertexBufferInterface \<Rightarrow> bool" where
  "undisturbed factory V [] this = True"
| "undisturbed factory V (c # cs) this =
     (reservePath V (mReservedSpace this) this = Keep \<and>
      undisturbed factory V cs (snd (storeCall factory V c this)))"

text \<open>
  One attribute of a draw that is reserved and then stored: \<^verbatim>\<open>reserveVertexSpace\<close>
  followed by \<^verbatim>\<open>storeDynamicAttribute\<close> with the same arguments. The result is the path
  that the store's \<^verbatim>\<open>reserveSpace\<close> takes and the offset the store returns.
\<close>

definition reserveThenStore ::
  "('vb, 'bd) BufferFactoryD3D \<Rightarrow> ('vb, 'bd) VertexBuffer \<Rightarrow> 'bd StoreCall
     \<Rightarrow> 'vb StreamingVertexBufferInterface
     \<Rightarrow> (Error + ReservePath \<times> uint) \<times> 'vb StreamingVertexBufferInterface" where
  "reserveThenStore factory V c this =
     (case reserveVertexSpace factory (call_attrib c) (call_binding c) (call_count c)
             (call_instances c) this of
        (Inl e, this1) \<Rightarrow> (Inl e, this1)
      | (Inr u, this1) \<Rightarrow>
          (case storeCall factory V c this1 of
             (Inl e, this2) \<Rightarrow> (Inl e, this2)
           | (Inr offset, this2) \<Rightarrow>
               (Inr (reservePath V (mReservedSpace this1) this1, offset), this2)))"

fun reserveThenStoreAll ::
  "('vb, 'bd) BufferFactoryD3D \<Rightarrow> ('vb, 'bd) VertexBuffer \<Rightarrow> 'bd StoreCall list
     \<Rightarrow> 'vb StreamingVertexBufferInterface
     \<Rightarrow> (Error + (ReservePath \<times> uint) list) \<times> 'vb StreamingVertexBufferInterface" where
  "reserveThenStoreAll factory V [] this = (Inr [], this)"
| "reserveThenStoreAll factory V (c # cs) this =
     (case reserveThenStore factory V c this of
        (Inl e, this1) \<Rightarrow> (Inl e, this1)
      | (Inr x, this1) \<Rightarrow>
          (case reserveThenStoreAll factory V cs this1 of
             (Inl e, this2) \<Rightarrow> (Inl e, this2)
           | (Inr xs, this2) \<Rightarrow> (Inr (x # xs), this2)))"

subsection \<open>What the interfaces expect of a back end\<close>

text \<open>
  The back ends are parameters, so a statement about the capacity after a call needs what
  the spec (3 and 6) says of a Buffer Handle: a successful resize (\<^verbatim>\<open>initialize\<close> or
  \<^verbatim>\<open>setBufferSize\<close>) leaves a buffer that holds at least the requested bytes, a
  successful discard leaves the capacity as it was, and so does storing attributes.
\<close>

definition resizeHonoured :: "('vb, 'bd) VertexBuffer \<Rightarrow> bool" where
  "resizeHonoured V \<longleftrightarrow>
     (\<forall>sz dynamic vb vb'. VertexBuffer_initialize V sz dynamic vb = (Inr (), vb')
        \<longrightarrow> sz \<le> VertexBuffer_getBufferSize V vb') \<and>
     (\<forall>sz vb vb'. VertexBuffer_setBufferSize V sz vb = (Inr (), vb')
        \<longrightarrow> sz \<le> VertexBuffer_getBufferSize V vb')"

definition discardKeepsCapacity :: "('vb, 'bd) VertexBuffer \<Rightarrow> bool" where
  "discardKeepsCapacity V \<longleftrightarrow>
     (\<forall>vb vb'. VertexBuffer_discard V vb = (Inr (), vb')
        \<longrightarrow> VertexBuffer_getBufferSize V vb' = VertexBuffer_getBufferSize V vb)"

definition storeKeepsCapacity :: "('vb, 'bd) VertexBuffer \<Rightarrow> bool" where
  "storeKeepsCapacity V \<longleftrightarrow>
     (\<forall>attrib binding currentValueType start count instances offset sourceData vb r vb'.
        VertexBuffer_storeVertexAttributes V attrib binding currentValueType start count instances
          offset sourceData vb = (r, vb')
        \<longrightarrow> VertexBuffer_getBufferSize V vb' = VertexBuffer_getBufferSize V vb)"

subsection \<open>Concrete collaborators\<close>

text \<open>
  The concrete runs take a binding to be the pair of its stride and its offset.

  Modelled from the spec: a Buffer Handle (spec 3 and 6), for the concrete runs below; the
  back ends are not under src/. Its capacity is 0 before the first resize and then the
  value accepted by the last successful resize; a resize beyond what the device can
  allocate fails with an out-of-memory error and changes nothing; discarding and storing
  leave the capacity as it is and fail once the device is lost. The content is not
  modelled.
\<close>

record DeviceBuffer =
  deviceCapacity :: uint
  deviceLimit :: uint
  deviceLost :: bool

definition deviceResize :: "uint \<Rightarrow> DeviceBuffer \<Rightarrow> (Error + unit) \<times> DeviceBuffer" where
  "deviceResize sz b =
     (if sz \<le> deviceLimit b then (Inr (), b\<lparr>deviceCapacity := sz\<rparr>)
      else (Inl (OutOfMemory ''Failed to allocate internal vertex buffer.''), b))"

definition deviceTouch :: "DeviceBuffer \<Rightarrow> (Error + unit) \<times> DeviceBuffer" where
  "deviceTouch b =
     (if deviceLost b then (Inl (OutOfMemory ''Failed to map internal vertex buffer.''), b)
      else (Inr (), b))"

definition deviceBuffer :: "(DeviceBuffer, GLuint \<times> GLintptr) VertexBuffer" where
  "deviceBuffer =
     \<lparr>VertexBuffer_initialize = (\<lambda>sz dynamic. deviceResize sz),
      VertexBuffer_storeVertexAttributes =
        (\<lambda>attrib binding currentValueType start count instances offset sourceData.
           deviceTouch),
      VertexBuffer_getBufferSize = deviceCapacity,
      VertexBuffer_setBufferSize = deviceResize,
      VertexBuffer_discard = deviceTouch,
      VertexBuffer_hintUnmapResource = (\<lambda>b. b)\<rparr>"

text \<open>
  Modelled from the spec: a buffer factory (spec 6) whose attributes take one byte per
  vertex, so that \<open>count\<close> is the unaligned byte requirement; a requirement that does not
  fit the 32-bit counter is an out-of-memory error. Its buffers start with capacity 0 on
  a device that allocates any size.
\<close>

definition byteFactory :: "(DeviceBuffer, GLuint \<times> GLintptr) BufferFactoryD3D" where
  "byteFactory =
     \<lparr>createVertexBuffer = \<lparr>deviceCapacity = 0, deviceLimit = 0xFFFFFFFF, deviceLost = False\<rparr>,
      getVertexSpaceRequired =
        (\<lambda>attrib binding count instances.
           if count \<le> 0xFFFFFFFF then Inr (ucast count)
           else Inl (OutOfMemory ''New vertex buffer size would result in an overflow.''))\<rparr>"

definition byteAttribute :: VertexAttribute where
  "byteAttribute =
     \<lparr>attrib_enabled = True, attrib_type = 0x1401, attrib_size = 1,
      attrib_normalized = False, attrib_pureInteger = False\<rparr>"

definition byteBinding :: "GLuint \<times> GLintptr" where
  "byteBinding = (1, 0)"

definition bytes :: "size_t \<Rightarrow> (GLuint \<times> GLintptr) StoreCall" where
  "bytes n =
     \<lparr>call_attrib = byteAttribute, call_binding = byteBinding, call_currentValueType = GL_NONE,
      call_start = 0, call_count = n, call_instances = 0, call_sourceData = []\<rparr>"

text \<open>A streaming interface over a device buffer of the given capacity.\<close>

definition streaming :: "uint \<Rightarrow> uint \<Rightarrow> uint \<Rightarrow> DeviceBuffer StreamingVertexBufferInterface" where
  "streaming capacity writePosition reservedSpace =
     \<lparr>mVertexBuffer = \<lparr>deviceCapacity = capacity, deviceLimit = 0xFFFFFFFF, deviceLost = False\<rparr>,
      mDynamic = True, mWritePosition = writePosition, mReservedSpace = reservedSpace\<rparr>"

text \<open>The same over a device that is lost.\<close>

definition lostStreaming ::
  "uint \<Rightarrow> uint \<Rightarrow> uint \<Rightarrow> DeviceBuffer StreamingVertexBufferInterface" where
  "lostStreaming capacity writePosition reservedSpace =
     \<lparr>mVertexBuffer = \<lparr>deviceCapacity = capacity, deviceLimit = 0xFFFFFFFF, deviceLost = True\<rparr>,
      mDynamic = True, mWritePosition = writePosition, mReservedSpace = reservedSpace\<rparr>"

text \<open>
  The end-to-end run: an interface is constructed and initialized with 1024 bytes, then
  attributes of 100, 200 and 800 bytes are each reserved and stored.
\<close>

definition scenario1024 ::
  "(Error + (ReservePath \<times> uint) list) \<times> DeviceBuffer StreamingVertexBufferInterface" where
  "scenario1024 =
     (case initialize deviceBuffer 1024 (StreamingVertexBufferInterface_ctor byteFactory) of
        (Inl e, this) \<Rightarrow> (Inl e, this)
      | (Inr u, this) \<Rightarrow>
          reserveThenStoreAll byteFactory deviceBuffer [bytes 100, bytes 200, bytes 800] this)"

text \<open>
  Stride and offset of a binding that is the pair (stride, offset), for the static
  interface; the signature of a byte attribute with a given stride and offset; a static
  interface with a given signature, over an empty buffer on a device that allocates up
  to \<open>limit\<close> bytes.
\<close>

definition byteSignature :: "GLuint \<Rightarrow> size_t \<Rightarrow> AttributeSignature" where
  "byteSignature stride offset =
     \<lparr>sig_type = 0x1401, sig_size = 1, sig_stride = stride, sig_normalized = False,
      sig_pureInteger = False, sig_offset = offset\<rparr>"

definition staticInterface ::
  "uint \<Rightarrow> AttributeSignature \<Rightarrow> DeviceBuffer StaticVertexBufferInterface" where
  "staticInterface limit s =
     \<lparr>mVertexBuffer = \<lparr>deviceCapacity = 0, deviceLimit = limit, deviceLost = False\<rparr>,
      mDynamic = False, mSignature = s\<rparr>"


text \<open>The same over a buffer that already has a capacity.\<close>

definition sizedStaticInterface ::
  "uint \<Rightarrow> uint \<Rightarrow> AttributeSignature \<Rightarrow> DeviceBuffer StaticVertexBufferInterface" where
  "sizedStaticInterface capacity limit s =
     \<lparr>mVertexBuffer = \<lparr>deviceCapacity = capacity, deviceLimit = limit, deviceLost = False\<rparr>,
      mDynamic = False, mSignature = s\<rparr>"

definition pairFunctions :: "(GLuint \<times> GLintptr) VertexAttributeFunctions" where
  "pairFunctions =
     \<lparr>VertexAttributeStride = (\<lambda>attrib binding. fst binding),
      ComputeVertexAttributeOffset = (\<lambda>attrib binding. snd binding)\<rparr>"

section \<open>Properties\<close>

subsection \<open>Evaluating the concrete runs\<close>

lemmas concrete_defs =
  storeDynamicAttribute_def getSpaceRequired_def byteFactory_def roundUp_def CheckedAdd_def
  reserveSpace_def reservePath_def getBufferSize_def setBufferSize_def discard_def
  deviceBuffer_def deviceTouch_def deviceResize_def streaming_def Let_def

lemmas static_defs =
  matchesAttribute_def AttributeSignature_matchesAttribute_def AttributeSignature_set_def
  ComputeVertexAttributeStride_def pairFunctions_def byteAttribute_def byteSignature_def
  staticInterface_def

subsection \<open>C1: the offsets of successive stores\<close>

lemma reserveSpace_Keep:
  assumes "reservePath V sz this = Keep"
  shows "reserveSpace V sz this = (Inr (), this)"
  using assms by (simp add: reservePath_def reserveSpace_def Let_def split: if_splits)

lemma reserveSpace_cursor:
  assumes "reserveSpace V sz this = (Inr (), this1)"
  shows "mWritePosition this1 = mWritePosition this \<or> mWritePosition this1 = 0"
  using assms
  by (auto simp add: reserveSpace_def Let_def split: if_splits prod.splits sum.splits)

lemma storeDynamicAttribute_success:
  assumes "storeDynamicAttribute factory V attrib binding currentValueType start count instances
             sourceData this = (Inr offset, this')"
    and "getSpaceRequired factory attrib binding count instances = Inr spaceRequired"
  shows "\<exists>this1. reserveSpace V (mReservedSpace this) this = (Inr (), this1) \<and>
           offset = mWritePosition this1 \<and>
           mWritePosition this' = offset + spaceRequired \<and>
           unat (mWritePosition this) + unat spaceRequired < 2 ^ 32"
  using assms
  by (auto simp add: storeDynamicAttribute_def CheckedAdd_def Let_def
      split: if_splits prod.splits sum.splits option.splits)

text \<open>
  A successful store leaves the cursor at the end of the range it returned, without
  wrap-around; and it returns the cursor it found unless it discarded or grew.
\<close>

lemma storeCall_success:
  assumes "storeCall factory V c this = (Inr offset, this')"
    and "callSpace factory c = Inr spaceRequired"
  shows "unat (mWritePosition this') = unat offset + unat spaceRequired"
    and "reservePath V (mReservedSpace this) this = Keep \<Longrightarrow> offset = mWritePosition this"
proof -
  from assms obtain this1 where
    r: "reserveSpace V (mReservedSpace this) this = (Inr (), this1)" and
    off: "offset = mWritePosition this1" and
    pos: "mWritePosition this' = offset + spaceRequired" and
    fit: "unat (mWritePosition this) + unat spaceRequired < 2 ^ 32"
    unfolding storeCall_def callSpace_def
    by (blast dest: storeDynamicAttribute_success)
  from reserveSpace_cursor [OF r] fit have "unat offset + unat spaceRequired < 2 ^ 32"
    using unsigned_less [of spaceRequired, where ?'a = nat] by (auto simp add: off)
  then show "unat (mWritePosition this') = unat offset + unat spaceRequired"
    by (simp add: pos unat_add_lem [THEN iffD1])
  show "offset = mWritePosition this" if "reservePath V (mReservedSpace this) this = Keep"
    using reserveSpace_Keep [OF that] r by (simp add: off)
qed

lemma adjacent_Cons:
  assumes "rs \<noteq> [] \<longrightarrow> unat offset + unat spaceRequired = unat (fst (hd rs))"
    and "adjacent rs"
  shows "adjacent ((offset, spaceRequired) # rs)"
  unfolding adjacent_def
proof (intro allI impI)
  fix i
  assume i: "Suc i < length ((offset, spaceRequired) # rs)"
  show "unat (fst (((offset, spaceRequired) # rs) ! i)) +
        unat (snd (((offset, spaceRequired) # rs) ! i)) =
        unat (fst (((offset, spaceRequired) # rs) ! Suc i))"
  proof (cases i)
    case 0
    with i assms(1) show ?thesis
      by (cases rs) simp_all
  next
    case (Suc j)
    with i assms(2) show ?thesis
      by (simp add: adjacent_def)
  qed
qed

lemma storeSequence_undisturbed:
  assumes "storeSequence factory V cs this = Some rs" and "undisturbed factory V cs this"
  shows "(rs \<noteq> [] \<longrightarrow> fst (hd rs) = mWritePosition this) \<and> adjacent rs"
  using assms
proof (induction cs arbitrary: this rs)
  case Nil
  then show ?case
    by (simp add: adjacent_def)
next
  case (Cons c cs)
  from Cons.prems(1) obtain offset this' spaceRequired rs' where
    call: "storeCall factory V c this = (Inr offset, this')" and
    space: "callSpace factory c = Inr spaceRequired" and
    rest: "storeSequence factory V cs this' = Some rs'" and
    rs: "rs = (offset, spaceRequired) # rs'"
    by (auto split: prod.splits sum.splits)
  from Cons.prems(2) call have
    keep: "reservePath V (mReservedSpace this) this = Keep" and
    quiet: "undisturbed factory V cs this'"
    by simp_all
  from Cons.IH [OF rest quiet] have
    first: "rs' \<noteq> [] \<longrightarrow> fst (hd rs') = mWritePosition this'" and adj: "adjacent rs'"
    by simp_all
  from first storeCall_success(1) [OF call space]
  have "rs' \<noteq> [] \<longrightarrow> unat offset + unat spaceRequired = unat (fst (hd rs'))"
    by simp
  then have "adjacent rs"
    unfolding rs using adj by (rule adjacent_Cons)
  moreover have "fst (hd rs) = mWritePosition this"
    using storeCall_success(2) [OF call space keep] by (simp add: rs)
  ultimately show ?case
    by simp
qed

text \<open>
  Where the sizes fit, nothing is discarded or grown: on an interface with nothing
  reserved, over a back end whose stores keep the capacity, a sequence of stores that
  all return an offset and whose aligned sizes, added to the cursor, stay within the
  capacity takes the third path of \<^verbatim>\<open>reserveSpace\<close> in every call.
\<close>

lemma storeCall_Keep:
  assumes keeps: "storeKeepsCapacity V"
    and call: "storeCall factory V c this = (Inr offset, this')"
    and keep: "reservePath V (mReservedSpace this) this = Keep"
  shows "getBufferSize V this' = getBufferSize V this" and "mReservedSpace this' = 0"
proof -
  have r: "reserveSpace V (mReservedSpace this) this = (Inr (), this)"
    by (rule reserveSpace_Keep [OF keep])
  from call r have "\<exists>spaceRequired vb.
      VertexBuffer_storeVertexAttributes V (call_attrib c) (call_binding c)
        (call_currentValueType c) (call_start c) (call_count c) (call_instances c)
        (mWritePosition this) (call_sourceData c) (mVertexBuffer this) = (Inr (), vb) \<and>
      this' = this\<lparr>mReservedSpace := 0, mVertexBuffer := vb,
                    mWritePosition := mWritePosition this + spaceRequired\<rparr>"
    by (auto simp add: storeCall_def storeDynamicAttribute_def Let_def
        split: sum.splits option.splits prod.splits)
  then obtain spaceRequired vb where
    store: "VertexBuffer_storeVertexAttributes V (call_attrib c) (call_binding c)
        (call_currentValueType c) (call_start c) (call_count c) (call_instances c)
        (mWritePosition this) (call_sourceData c) (mVertexBuffer this) = (Inr (), vb)" and
    this': "this' = this\<lparr>mReservedSpace := 0, mVertexBuffer := vb,
                    mWritePosition := mWritePosition this + spaceRequired\<rparr>"
    by blast
  from keeps store have "VertexBuffer_getBufferSize V vb = VertexBuffer_getBufferSize V (mVertexBuffer this)"
    unfolding storeKeepsCapacity_def by blast
  then show "getBufferSize V this' = getBufferSize V this"
    by (simp add: this' getBufferSize_def)
  show "mReservedSpace this' = 0"
    by (simp add: this')
qed

lemma storeSequence_fits:
  assumes keeps: "storeKeepsCapacity V"
    and run: "storeSequence factory V cs this = Some rs"
    and fresh: "mReservedSpace this = 0"
    and fits: "unat (mWritePosition this) + sum_list (map (\<lambda>r. unat (snd r)) rs)
                 \<le> unat (getBufferSize V this)"
  shows "undisturbed factory V cs this"
  using run fresh fits
proof (induction cs arbitrary: this rs)
  case Nil
  then show ?case by simp
next
  case (Cons c cs)
  from Cons.prems(1) obtain offset this' spaceRequired rs' where
    call: "storeCall factory V c this = (Inr offset, this')" and
    space: "callSpace factory c = Inr spaceRequired" and
    rest: "storeSequence factory V cs this' = Some rs'" and
    rs: "rs = (offset, spaceRequired) # rs'"
    by (auto split: prod.splits sum.splits)
  from Cons.prems(3) have "unat (mWritePosition this) \<le> unat (getBufferSize V this)"
    by simp
  then have keep: "reservePath V (mReservedSpace this) this = Keep"
    by (simp add: reservePath_def Let_def Cons.prems(2) word_less_nat_alt not_less)
  note after = storeCall_Keep [OF keeps call keep]
  have "offset = mWritePosition this"
    by (rule storeCall_success(2) [OF call space keep])
  with storeCall_success(1) [OF call space]
  have pos: "unat (mWritePosition this') = unat (mWritePosition this) + unat spaceRequired"
    by simp
  from Cons.prems(3) have "unat (mWritePosition this') + sum_list (map (\<lambda>r. unat (snd r)) rs')
      \<le> unat (getBufferSize V this')"
    by (simp add: rs pos after(1))
  from Cons.IH [OF rest after(2) this] keep call show ?case
    by simp
qed

text \<open>
  Claim C1, as amended. Take any sequence of \<^verbatim>\<open>storeDynamicAttribute\<close> calls on one
  streaming interface, in any state, that all return an offset, with no discard and no
  grow after the first call (the first call may do either: that happens before its offset
  is returned). Then every returned offset plus the aligned size of its call is exactly
  the next returned offset, as numbers below \<open>2^32\<close>: the ranges do not overlap and the
  offsets never decrease. An offset is strictly below the next one exactly when the
  aligned size of its call is not zero. The bound on the sum of the sizes is not needed
  for this; it is one way to have no discard and no grow (\<open>storeSequence_fits\<close>).
\<close>

theorem storeSequence_offsets:
  assumes "storeSequence factory V (c # cs) this = Some rs"
    and "undisturbed factory V cs (snd (storeCall factory V c this))"
  shows "\<forall>i. Suc i < length rs \<longrightarrow>
           unat (fst (rs ! i)) + unat (snd (rs ! i)) = unat (fst (rs ! Suc i)) \<and>
           (fst (rs ! i) < fst (rs ! Suc i) \<longleftrightarrow> snd (rs ! i) \<noteq> 0)"
proof -
  from assms(1) obtain offset this' spaceRequired rs' where
    call: "storeCall factory V c this = (Inr offset, this')" and
    space: "callSpace factory c = Inr spaceRequired" and
    rest: "storeSequence factory V cs this' = Some rs'" and
    rs: "rs = (offset, spaceRequired) # rs'"
    by (auto split: prod.splits sum.splits)
  from assms(2) call have quiet: "undisturbed factory V cs this'"
    by simp
  from storeSequence_undisturbed [OF rest quiet] have
    first: "rs' \<noteq> [] \<longrightarrow> fst (hd rs') = mWritePosition this'" and adj: "adjacent rs'"
    by simp_all
  from first storeCall_success(1) [OF call space]
  have "rs' \<noteq> [] \<longrightarrow> unat offset + unat spaceRequired = unat (fst (hd rs'))"
    by simp
  then have adj: "adjacent rs"
    unfolding rs using adj by (rule adjacent_Cons)
  show ?thesis
  proof (intro allI impI)
    fix i
    assume "Suc i < length rs"
    with adj have eq: "unat (fst (rs ! i)) + unat (snd (rs ! i)) = unat (fst (rs ! Suc i))"
      by (simp add: adjacent_def)
    then have "unat (fst (rs ! i)) < unat (fst (rs ! Suc i)) \<longleftrightarrow> unat (snd (rs ! i)) \<noteq> 0"
      by arith
    then have "fst (rs ! i) < fst (rs ! Suc i) \<longleftrightarrow> snd (rs ! i) \<noteq> 0"
      by (simp add: word_less_nat_alt unat_eq_0)
    with eq show "unat (fst (rs ! i)) + unat (snd (rs ! i)) = unat (fst (rs ! Suc i)) \<and>
           (fst (rs ! i) < fst (rs ! Suc i) \<longleftrightarrow> snd (rs ! i) \<noteq> 0)"
      by simp
  qed
qed

text \<open>
  Stores of 100 and 200 bytes into 1024 bytes: the ranges are (0, 112) and (112, 208).
\<close>

theorem storeSequence_offsets_witness:
  "storeSequence byteFactory deviceBuffer [bytes 100, bytes 200] (streaming 1024 0 0) =
     Some [(0, 112), (112, 208)] \<and>
   unat (0 :: uint) + unat (112 :: uint) = unat (112 :: uint) \<and> (0 :: uint) < 112"
proof -
  have run: "storeSequence byteFactory deviceBuffer [bytes 100, bytes 200] (streaming 1024 0 0) =
      Some [(0, 112), (112, 208)]"
    by (simp add: storeCall_def callSpace_def bytes_def concrete_defs)
  have quiet: "undisturbed byteFactory deviceBuffer [bytes 200]
      (snd (storeCall byteFactory deviceBuffer (bytes 100) (streaming 1024 0 0)))"
    by (simp add: storeCall_def callSpace_def bytes_def concrete_defs)
  from storeSequence_offsets [OF run quiet, THEN spec, of 0] run show ?thesis
    by simp
qed

text \<open>
  The claim as stated fails where a store needs no bytes: two stores of no vertices into
  1024 bytes neither discard nor grow, their sizes sum to 0, and both return offset 0, so
  the second offset is not above the first.
\<close>

theorem storeSequence_offsets_counterexample:
  "storeSequence byteFactory deviceBuffer [bytes 0, bytes 0] (streaming 1024 0 0) =
     Some [(0, 0), (0, 0)] \<and>
   undisturbed byteFactory deviceBuffer [bytes 0, bytes 0] (streaming 1024 0 0) \<and>
   \<not> fst ([(0 :: uint, 0 :: uint), (0, 0)] ! 0) < fst ([(0 :: uint, 0 :: uint), (0, 0)] ! 1)"
  by (simp add: storeCall_def callSpace_def bytes_def concrete_defs)

subsection \<open>C2: growing\<close>

lemma setBufferSize_capacity:
  assumes "resizeHonoured V" and "setBufferSize V sz this = (Inr (), this')"
  shows "sz \<le> getBufferSize V this'"
  using assms
  by (auto simp add: resizeHonoured_def setBufferSize_def getBufferSize_def
      split: if_splits prod.splits)

lemma resizeHonoured_deviceBuffer: "resizeHonoured deviceBuffer"
  by (auto simp add: resizeHonoured_def deviceBuffer_def deviceResize_def split: if_splits)

text \<open>
  Claim C2, as amended. For every requested size \<open>s\<close> strictly greater than the current
  capacity \<open>c\<close>, a successful \<^verbatim>\<open>reserveSpace(s)\<close> on a back end that honours resizes
  resets the write cursor to 0 and leaves a capacity of at least \<open>s\<close>; whenever \<open>3 * c\<close>
  fits the unsigned 32-bit counter the capacity is also at least \<open>3 * c div 2\<close>, the
  integer part of \<open>1.5 * c\<close>. (The code computes \<^verbatim>\<open>3 * curBufferSize / 2\<close> in 32-bit
  arithmetic; nothing is said here about a \<open>c\<close> for which that product wraps.)
\<close>

theorem reserveSpace_grow:
  assumes grow: "getBufferSize V this < sz"
    and ok: "reserveSpace V sz this = (Inr (), this')"
    and honoured: "resizeHonoured V"
  shows "mWritePosition this' = 0 \<and> sz \<le> getBufferSize V this' \<and>
         (3 * unat (getBufferSize V this) < 2 ^ 32 \<longrightarrow>
            3 * unat (getBufferSize V this) div 2 \<le> unat (getBufferSize V this'))"
proof -
  let ?c = "getBufferSize V this"
  let ?n = "max sz (3 * ?c div 2)"
  from grow ok obtain this1 where
    set: "setBufferSize V ?n this = (Inr (), this1)" and
    this': "this' = this1\<lparr>mWritePosition := 0\<rparr>"
    by (auto simp add: reserveSpace_def Let_def split: prod.splits sum.splits)
  have cap: "?n \<le> getBufferSize V this'"
    using setBufferSize_capacity [OF honoured set] by (simp add: this' getBufferSize_def)
  have "mWritePosition this' = 0"
    by (simp add: this')
  moreover have "sz \<le> getBufferSize V this'"
    using cap by simp
  moreover have "3 * unat ?c div 2 \<le> unat (getBufferSize V this')" if "3 * unat ?c < 2 ^ 32"
  proof -
    have "unat (3 * ?c) = 3 * unat ?c"
      using that by (simp add: unat_mult_lem [THEN iffD1])
    then have "unat (3 * ?c div 2) = 3 * unat ?c div 2"
      by (simp add: unat_div)
    moreover have "3 * ?c div 2 \<le> getBufferSize V this'"
      using cap by simp
    ultimately show ?thesis
      by (simp add: word_le_nat_alt)
  qed
  ultimately show ?thesis
    by simp
qed

text \<open>A request of 1100 bytes on a capacity of 1024 grows the buffer to 1536 bytes.\<close>

theorem reserveSpace_grow_witness:
  "reserveSpace deviceBuffer 1100 (streaming 1024 320 0) = (Inr (), streaming 1536 0 0) \<and>
   mWritePosition (streaming 1536 0 0) = 0 \<and>
   1100 \<le> getBufferSize deviceBuffer (streaming 1536 0 0) \<and>
   3 * unat (1024 :: uint) div 2 \<le> unat (getBufferSize deviceBuffer (streaming 1536 0 0))"
proof -
  have grow: "getBufferSize deviceBuffer (streaming 1024 320 0) < 1100"
    by (simp add: concrete_defs)
  have ok: "reserveSpace deviceBuffer 1100 (streaming 1024 320 0) = (Inr (), streaming 1536 0 0)"
    by (simp add: concrete_defs)
  have c: "getBufferSize deviceBuffer (streaming 1024 320 0) = 1024"
    by (simp add: concrete_defs)
  from reserveSpace_grow [OF grow ok resizeHonoured_deviceBuffer] ok show ?thesis
    by (simp add: c)
qed

text \<open>
  The claim as stated fails in two ways. With a capacity of \<open>0x60000000\<close> bytes the
  product \<open>3 * c\<close> wraps, and a request of one byte more grows the buffer to just that
  request, far below \<open>1.5 * c\<close>. And the division rounds down: with a capacity of 3 a
  request of 4 bytes leaves 4 bytes, below \<open>1.5 * 3\<close>.
\<close>

theorem reserveSpace_grow_counterexample:
  "resizeHonoured deviceBuffer \<and>
   getBufferSize deviceBuffer (streaming 0x60000000 0 0) < 0x60000001 \<and>
   reserveSpace deviceBuffer 0x60000001 (streaming 0x60000000 0 0) =
     (Inr (), streaming 0x60000001 0 0) \<and>
   2 * unat (getBufferSize deviceBuffer (streaming 0x60000001 0 0)) <
     3 * unat (getBufferSize deviceBuffer (streaming 0x60000000 0 0)) \<and>
   getBufferSize deviceBuffer (streaming 3 0 0) < 4 \<and>
   reserveSpace deviceBuffer 4 (streaming 3 0 0) = (Inr (), streaming 4 0 0) \<and>
   2 * unat (getBufferSize deviceBuffer (streaming 4 0 0)) <
     3 * unat (getBufferSize deviceBuffer (streaming 3 0 0))"
  by (intro conjI resizeHonoured_deviceBuffer) (simp_all add: concrete_defs)

subsection \<open>C3: discarding\<close>

lemma discardKeepsCapacity_deviceBuffer: "discardKeepsCapacity deviceBuffer"
  by (auto simp add: discardKeepsCapacity_def deviceBuffer_def deviceTouch_def split: if_splits)

lemma discard_capacity:
  assumes "discardKeepsCapacity V" and "discard V this = (Inr (), this')"
  shows "getBufferSize V this' = getBufferSize V this"
  using assms
  by (auto simp add: discardKeepsCapacity_def discard_def getBufferSize_def split: prod.splits)

text \<open>
  Claim C3, as amended. For every requested size \<open>s\<close>, capacity \<open>c\<close> and cursor with
  \<open>s \<le> c < cursor + s\<close>, where \<open>cursor + s\<close> still fits the unsigned 32-bit counter,
  \<^verbatim>\<open>reserveSpace(s)\<close> takes the discard path: it calls \<^verbatim>\<open>discard\<close> and never resizes, and
  its result is that of the discard. When the discard succeeds the write cursor is reset
  to 0 and, on a back end whose discard keeps the capacity, the capacity is unchanged;
  when the discard fails its error is returned and the cursor is not reset.
\<close>

theorem reserveSpace_discard:
  assumes fits: "sz \<le> getBufferSize V this"
    and over: "unat (getBufferSize V this) < unat (mWritePosition this) + unat sz"
    and nowrap: "unat (mWritePosition this) + unat sz < 2 ^ 32"
  shows "reservePath V sz this = Discard \<and>
         reserveSpace V sz this =
           (case discard V this of
              (Inl e, this') \<Rightarrow> (Inl e, this')
            | (Inr u, this') \<Rightarrow> (Inr (), this'\<lparr>mWritePosition := 0\<rparr>)) \<and>
         (discardKeepsCapacity V \<longrightarrow>
            (\<forall>this'. reserveSpace V sz this = (Inr (), this') \<longrightarrow>
               mWritePosition this' = 0 \<and> getBufferSize V this' = getBufferSize V this))"
proof -
  have sum: "unat (mWritePosition this + sz) = unat (mWritePosition this) + unat sz"
    using nowrap by (simp add: unat_add_lem [THEN iffD1])
  have no_grow: "\<not> getBufferSize V this < sz"
    using fits by (simp add: not_less)
  have full: "getBufferSize V this < mWritePosition this + sz"
    using over by (simp add: word_less_nat_alt sum)
  have path: "reservePath V sz this = Discard"
    using no_grow full by (simp add: reservePath_def Let_def)
  have res: "reserveSpace V sz this =
      (case discard V this of
         (Inl e, this') \<Rightarrow> (Inl e, this')
       | (Inr u, this') \<Rightarrow> (Inr (), this'\<lparr>mWritePosition := 0\<rparr>))"
    using no_grow full by (simp add: reserveSpace_def Let_def)
  have "mWritePosition this' = 0 \<and> getBufferSize V this' = getBufferSize V this"
    if keeps: "discardKeepsCapacity V" and ok: "reserveSpace V sz this = (Inr (), this')"
    for this'
  proof -
    from ok res obtain this1 where
      d: "discard V this = (Inr (), this1)" and this': "this' = this1\<lparr>mWritePosition := 0\<rparr>"
      by (auto split: prod.splits sum.splits)
    from discard_capacity [OF keeps d] show ?thesis
      by (simp add: this' getBufferSize_def)
  qed
  with path res show ?thesis
    by blast
qed

text \<open>A request of 800 bytes with the cursor at 320 of 1024 bytes.\<close>

theorem reserveSpace_discard_witness:
  "reservePath deviceBuffer 800 (streaming 1024 320 0) = Discard \<and>
   reserveSpace deviceBuffer 800 (streaming 1024 320 0) = (Inr (), streaming 1024 0 0) \<and>
   mWritePosition (streaming 1024 0 0) = 0 \<and>
   getBufferSize deviceBuffer (streaming 1024 0 0) =
     getBufferSize deviceBuffer (streaming 1024 320 0)"
proof -
  have fits: "800 \<le> getBufferSize deviceBuffer (streaming 1024 320 0)"
    by (simp add: concrete_defs)
  have over: "unat (getBufferSize deviceBuffer (streaming 1024 320 0)) <
      unat (mWritePosition (streaming 1024 320 0)) + unat (800 :: uint)"
    by (simp add: concrete_defs)
  have nowrap: "unat (mWritePosition (streaming 1024 320 0)) + unat (800 :: uint) < 2 ^ 32"
    by (simp add: concrete_defs)
  have ok: "reserveSpace deviceBuffer 800 (streaming 1024 320 0) = (Inr (), streaming 1024 0 0)"
    by (simp add: concrete_defs)
  from reserveSpace_discard [OF fits over nowrap] discardKeepsCapacity_deviceBuffer ok
  show ?thesis
    by simp
qed

text \<open>
  The claim as stated fails in two ways. The code adds the cursor and the size in 32-bit
  arithmetic: with 0xC0000000 bytes of capacity, the cursor at 0x80000000 and a request
  of 0x80000000 bytes, the sum wraps to 0 and nothing is discarded, the cursor stays
  where it was. And the discard can fail: on a lost device the same condition returns
  the error of the discard and the cursor, at 512, is not reset.
\<close>

theorem reserveSpace_discard_counterexample:
  "discardKeepsCapacity deviceBuffer \<and>
   (0x80000000 :: uint) \<le> getBufferSize deviceBuffer (streaming 0xC0000000 0x80000000 0) \<and>
   unat (getBufferSize deviceBuffer (streaming 0xC0000000 0x80000000 0)) <
     unat (mWritePosition (streaming 0xC0000000 0x80000000 0)) + unat (0x80000000 :: uint) \<and>
   reserveSpace deviceBuffer 0x80000000 (streaming 0xC0000000 0x80000000 0) =
     (Inr (), streaming 0xC0000000 0x80000000 0) \<and>
   mWritePosition (streaming 0xC0000000 0x80000000 0) \<noteq> 0 \<and>
   (1024 :: uint) \<le> getBufferSize deviceBuffer (lostStreaming 1024 512 0) \<and>
   unat (getBufferSize deviceBuffer (lostStreaming 1024 512 0)) <
     unat (mWritePosition (lostStreaming 1024 512 0)) + unat (1024 :: uint) \<and>
   reserveSpace deviceBuffer 1024 (lostStreaming 1024 512 0) =
     (Inl (OutOfMemory ''Failed to map internal vertex buffer.''), lostStreaming 1024 512 0) \<and>
   mWritePosition (lostStreaming 1024 512 0) \<noteq> 0"
  by (intro conjI discardKeepsCapacity_deviceBuffer)
     (simp_all add: lostStreaming_def concrete_defs)

subsection \<open>C4: the aligned space requirement\<close>

text \<open>Rounding up to a multiple of 16, on natural numbers.\<close>

lemma div_16_le:
  fixes n k :: nat
  assumes "n \<le> 16 * k"
  shows "(n + 15) div 16 \<le> k"
proof -
  from assms have "(n + 15) div 16 \<le> (16 * k + 15) div 16"
    by (intro div_le_mono) simp
  then show ?thesis
    by simp
qed

lemma least_multiple_16:
  fixes n m :: nat
  shows "16 dvd (n + 15) div 16 * 16" and "n \<le> (n + 15) div 16 * 16"
    and "16 dvd m \<Longrightarrow> n \<le> m \<Longrightarrow> (n + 15) div 16 * 16 \<le> m"
proof -
  show "16 dvd (n + 15) div 16 * 16"
    by simp
  have "(n + 15) div 16 * 16 + (n + 15) mod 16 = n + 15"
    by (rule div_mult_mod_eq)
  moreover have "(n + 15) mod 16 < 16"
    by simp
  ultimately show "n \<le> (n + 15) div 16 * 16"
    by linarith
  show "(n + 15) div 16 * 16 \<le> m" if "16 dvd m" "n \<le> m"
  proof -
    from that(1) obtain k where k: "m = 16 * k" ..
    with that(2) have "(n + 15) div 16 \<le> k"
      by (simp add: div_16_le)
    then show ?thesis
      by (simp add: k)
  qed
qed

lemma no_multiple_16:
  fixes n m :: nat
  assumes "2 ^ 32 \<le> n + 15" and "16 dvd m" and "n \<le> m"
  shows "2 ^ 32 \<le> m"
proof -
  from assms(2) obtain k where k: "m = 16 * k" ..
  with assms(3) have a: "(n + 15) div 16 \<le> k"
    by (simp add: div_16_le)
  have "(2 ^ 32 :: nat) div 16 \<le> (n + 15) div 16"
    by (rule div_le_mono [OF assms(1)])
  then have "(268435456 :: nat) \<le> (n + 15) div 16"
    by simp
  with a have "(268435456 :: nat) \<le> k"
    by (rule order_trans [rotated])
  then show ?thesis
    by (simp add: k)
qed

text \<open>
  \<^verbatim>\<open>roundUp(r, 16u)\<close> in the 32-bit counter: the next multiple of 16 when \<open>r + 15\<close> fits,
  and 0 when it wraps.
\<close>

lemma roundUp_16: "roundUp r 16 = r + 15 - (r + 15) mod 16"
  by (simp add: roundUp_def Let_def add.commute)

lemma roundUp_16_fits:
  assumes "unat r + 15 < 2 ^ 32"
  shows "unat (roundUp r 16) = (unat r + 15) div 16 * 16"
proof -
  have t: "unat (r + 15) = unat r + 15"
    using assms by (simp add: unat_add_lem [THEN iffD1])
  have m: "unat ((r + 15) mod 16) = (unat r + 15) mod 16"
    by (simp add: unat_mod t)
  have le: "(r + 15) mod 16 \<le> r + 15"
    by (simp add: word_le_nat_alt m t)
  have "unat (r + 15 - (r + 15) mod 16) = unat r + 15 - (unat r + 15) mod 16"
    using le by (simp add: unat_sub m t)
  also have "\<dots> = (unat r + 15) div 16 * 16"
    by (simp add: minus_mod_eq_div_mult)
  finally show ?thesis
    by (simp only: roundUp_16)
qed

lemma roundUp_16_wraps:
  assumes "2 ^ 32 \<le> unat r + 15"
  shows "roundUp r 16 = 0"
proof -
  have "unat r < 2 ^ 32"
    using unsigned_less [of r, where ?'a = nat] by simp
  then have t: "unat (r + 15) = unat r + 15 - 2 ^ 32"
    using assms by (simp add: unat_word_ariths mod_if)
  then have "unat (r + 15) < 16"
    using \<open>unat r < 2 ^ 32\<close> by simp
  then have "(r + 15) mod 16 = r + 15"
    by (simp add: word_less_nat_alt mod_word_less)
  then show ?thesis
    by (simp only: roundUp_16) simp
qed


text \<open>
  Claim C4. For every attribute, binding, vertex count and instance count for which the
  factory's \<^verbatim>\<open>getVertexSpaceRequired\<close> produces an unaligned requirement,
  \<^verbatim>\<open>getSpaceRequired\<close> returns the smallest multiple of 16 that is at least that
  requirement; if no such multiple is representable in the unsigned 32-bit counter, it
  returns the out-of-memory (overflow) error instead, never a truncated value.
\<close>

theorem getSpaceRequired_aligned:
  assumes "getVertexSpaceRequired factory attrib binding count instances = Inr spaceRequired"
  shows "if \<exists>m. m < 2 ^ 32 \<and> 16 dvd m \<and> unat spaceRequired \<le> m
         then \<exists>aligned.
                getSpaceRequired factory attrib binding count instances = Inr aligned \<and>
                16 dvd unat aligned \<and> unat spaceRequired \<le> unat aligned \<and>
                (\<forall>m. 16 dvd m \<and> unat spaceRequired \<le> m \<longrightarrow> unat aligned \<le> m)
         else getSpaceRequired factory attrib binding count instances =
                Inl (OutOfMemory
                  ''Vertex buffer overflow in VertexBufferInterface::getSpaceRequired.'')"
proof (cases "unat spaceRequired + 15 < 2 ^ 32")
  case True
  let ?a = "roundUp spaceRequired 16"
  have a: "unat ?a = (unat spaceRequired + 15) div 16 * 16"
    by (rule roundUp_16_fits [OF True])
  have ge: "\<not> ?a < spaceRequired"
    by (simp add: word_less_nat_alt a least_multiple_16(2) not_less)
  have res: "getSpaceRequired factory attrib binding count instances = Inr ?a"
    using assms ge by (simp add: getSpaceRequired_def Let_def)
  have "unat ?a < 2 ^ 32"
    using unsigned_less [of ?a, where ?'a = nat] by simp
  then have ex: "\<exists>m. m < 2 ^ 32 \<and> 16 dvd m \<and> unat spaceRequired \<le> m"
    using a least_multiple_16(1,2) [of "unat spaceRequired"] by metis
  have "16 dvd unat ?a" "unat spaceRequired \<le> unat ?a"
    "\<forall>m. 16 dvd m \<and> unat spaceRequired \<le> m \<longrightarrow> unat ?a \<le> m"
    by (simp_all only: a least_multiple_16) (simp add: least_multiple_16(3))
  with res ex show ?thesis
    by simp
next
  case False
  then have wrap: "2 ^ 32 \<le> unat spaceRequired + 15"
    by simp
  have zero: "roundUp spaceRequired 16 = 0"
    by (rule roundUp_16_wraps [OF wrap])
  have "unat spaceRequired \<noteq> 0"
    using wrap by auto
  then have "0 < spaceRequired"
    by (simp add: word_less_nat_alt)
  then have res: "getSpaceRequired factory attrib binding count instances =
      Inl (OutOfMemory ''Vertex buffer overflow in VertexBufferInterface::getSpaceRequired.'')"
    using assms zero by (simp add: getSpaceRequired_def Let_def)
  have "\<not> (\<exists>m. m < 2 ^ 32 \<and> 16 dvd m \<and> unat spaceRequired \<le> m)"
    using no_multiple_16 [OF wrap] by (meson not_less)
  with res show ?thesis
    by simp
qed

text \<open>A requirement of 100 bytes gives 112; one of \<open>2^32 - 15\<close> bytes is refused.\<close>

theorem getSpaceRequired_aligned_witness:
  "(\<exists>aligned. getSpaceRequired byteFactory byteAttribute byteBinding 100 0 = Inr aligned \<and>
      16 dvd unat aligned \<and> 100 \<le> unat aligned \<and> unat aligned \<le> 112) \<and>
   getSpaceRequired byteFactory byteAttribute byteBinding 0xFFFFFFF1 0 =
     Inl (OutOfMemory ''Vertex buffer overflow in VertexBufferInterface::getSpaceRequired.'')"
proof -
  have a: "getVertexSpaceRequired byteFactory byteAttribute byteBinding 100 0 = Inr 100"
    by (simp add: byteFactory_def)
  have b: "getVertexSpaceRequired byteFactory byteAttribute byteBinding 0xFFFFFFF1 0 = Inr 0xFFFFFFF1"
    by (simp add: byteFactory_def)
  have fits: "\<exists>m. m < 2 ^ 32 \<and> 16 dvd m \<and> unat (100 :: uint) \<le> m"
    by (rule exI [of _ 112]) simp
  have none: "\<not> (\<exists>m. m < 2 ^ 32 \<and> 16 dvd m \<and> unat (0xFFFFFFF1 :: uint) \<le> m)"
  proof
    assume "\<exists>m. m < 2 ^ 32 \<and> 16 dvd m \<and> unat (0xFFFFFFF1 :: uint) \<le> m"
    then obtain m where "m < 2 ^ 32" "16 dvd m" "unat (0xFFFFFFF1 :: uint) \<le> m"
      by blast
    with no_multiple_16 [of "unat (0xFFFFFFF1 :: uint)" m] show False
      by simp
  qed
  obtain aligned where al:
    "getSpaceRequired byteFactory byteAttribute byteBinding 100 0 = Inr aligned"
    "16 dvd unat aligned" "unat (100 :: uint) \<le> unat aligned"
    "\<forall>m. 16 dvd m \<and> unat (100 :: uint) \<le> m \<longrightarrow> unat aligned \<le> m"
    using getSpaceRequired_aligned [OF a] fits by auto
  from al(4) have "unat aligned \<le> 112"
    by simp
  with al(1-3) have first: "\<exists>aligned.
      getSpaceRequired byteFactory byteAttribute byteBinding 100 0 = Inr aligned \<and>
      16 dvd unat aligned \<and> 100 \<le> unat aligned \<and> unat aligned \<le> 112"
    by auto
  have "getSpaceRequired byteFactory byteAttribute byteBinding 0xFFFFFFF1 0 =
      Inl (OutOfMemory ''Vertex buffer overflow in VertexBufferInterface::getSpaceRequired.'')"
    using getSpaceRequired_aligned [OF b] none by simp
  with first show ?thesis
    by simp
qed

subsection \<open>C5: an overflowing write position is reported before anything changes\<close>

text \<open>
  Claim C5. If adding the aligned required space to the current write cursor would
  overflow the unsigned 32-bit counter, \<^verbatim>\<open>storeDynamicAttribute\<close> returns the overflow
  (out-of-memory) error and performs no mutation: the interface it returns, with its
  write cursor, its pending reserved space and its buffer, is the one it was given.
\<close>

theorem storeDynamicAttribute_overflow:
  assumes "getSpaceRequired factory attrib binding count instances = Inr spaceRequired"
    and "2 ^ 32 \<le> unat (mWritePosition this) + unat spaceRequired"
  shows "storeDynamicAttribute factory V attrib binding currentValueType start count instances
           sourceData this =
         (Inl (OutOfMemory
            ''Internal error, new vertex buffer write position would overflow.''), this)"
  using assms by (simp add: storeDynamicAttribute_def CheckedAdd_def)

text \<open>An aligned requirement of \<open>2^32 - 16\<close> bytes on top of a cursor at 16.\<close>

theorem storeDynamicAttribute_overflow_witness:
  "storeDynamicAttribute byteFactory deviceBuffer byteAttribute byteBinding GL_NONE 0 0xFFFFFFF0 0 []
     (streaming 1024 16 0) =
   (Inl (OutOfMemory ''Internal error, new vertex buffer write position would overflow.''),
    streaming 1024 16 0)"
proof -
  have space: "getSpaceRequired byteFactory byteAttribute byteBinding 0xFFFFFFF0 0 = Inr 0xFFFFFFF0"
    by (simp add: getSpaceRequired_def byteFactory_def roundUp_def)
  have over: "2 ^ 32 \<le> unat (mWritePosition (streaming 1024 16 0)) + unat (0xFFFFFFF0 :: uint)"
    by (simp add: streaming_def)
  show ?thesis
    by (rule storeDynamicAttribute_overflow [OF space over])
qed

subsection \<open>The static store, step by step\<close>

lemma setBufferSize_mSignature:
  fixes this :: "'vb StaticVertexBufferInterface"
  assumes "setBufferSize V sz this = (r, this')"
  shows "mSignature this' = mSignature this"
  using assms by (auto simp add: setBufferSize_def split: if_splits prod.splits)

text \<open>
  What a returning \<^verbatim>\<open>storeStaticAttribute\<close> has done to the signature: nothing when it
  returns an error, and all of its steps when it returns success.
\<close>

lemma storeStaticAttribute_cases:
  assumes "storeStaticAttribute factory V H assertsEnabled attrib binding start count instances
             sourceData this = Inr (r, this')"
  shows "case r of
           Inl e \<Rightarrow> mSignature this' = mSignature this
         | Inr u \<Rightarrow>
             (\<exists>spaceRequired this1 vb.
                getSpaceRequired factory attrib binding (scast count) instances =
                  Inr spaceRequired \<and>
                setBufferSize V spaceRequired this = (Inr (), this1) \<and>
                VertexBuffer_storeVertexAttributes V attrib binding GL_NONE start (scast count)
                  instances 0 sourceData (mVertexBuffer this1) = (Inr (), vb) \<and>
                AttributeSignature_set H attrib binding (mSignature this) =
                  Inr (mSignature this'))"
proof (cases "getSpaceRequired factory attrib binding (scast count) instances")
  case (Inl e)
  with assms show ?thesis
    by (auto simp add: storeStaticAttribute_def)
next
  case (Inr spaceRequired)
  obtain r1 this1 where size: "setBufferSize V spaceRequired this = (r1, this1)"
    by (cases "setBufferSize V spaceRequired this")
  have sig1: "mSignature this1 = mSignature this"
    by (rule setBufferSize_mSignature [OF size])
  show ?thesis
  proof (cases r1)
    case (Inl e)
    with assms Inr size sig1 show ?thesis
      by (auto simp add: storeStaticAttribute_def)
  next
    case r1: (Inr u)
    obtain r2 vb where store:
      "VertexBuffer_storeVertexAttributes V attrib binding GL_NONE start (scast count)
         instances 0 sourceData (mVertexBuffer this1) = (r2, vb)"
      by (cases "VertexBuffer_storeVertexAttributes V attrib binding GL_NONE start (scast count)
         instances 0 sourceData (mVertexBuffer this1)")
    from assms Inr size r1 store sig1 show ?thesis
      by (cases r2; cases "AttributeSignature_set H attrib binding (mSignature this)")
         (auto simp add: storeStaticAttribute_def split: if_splits)
  qed
qed

subsection \<open>C6: when a descriptor matches the cached signature\<close>



subsection \<open>C7: a stored descriptor matches, at any whole number of strides\<close>

lemma ucast_stride:
  "(ucast (ComputeVertexAttributeStride H attrib binding) :: GLuint) =
   VertexAttributeStride H attrib binding"
  by (simp add: ComputeVertexAttributeStride_def ucast_up_ucast_id is_up)

lemma set_result:
  assumes "AttributeSignature_set H attrib binding s0 = Inr s"
  shows "sig_type s = attrib_type attrib" "sig_size s = attrib_size attrib"
    "sig_normalized s = attrib_normalized attrib" "sig_pureInteger s = attrib_pureInteger attrib"
    "ucast (sig_stride s) = ComputeVertexAttributeStride H attrib binding"
    "ComputeVertexAttributeStride H attrib binding \<noteq> 0"
    "sig_offset s =
       ComputeVertexAttributeOffset H attrib binding mod ComputeVertexAttributeStride H attrib binding"
  using assms
  by (auto simp add: AttributeSignature_set_def Let_def ucast_stride split: if_splits)
     (simp_all add: ComputeVertexAttributeStride_def)

text \<open>Offsets a whole number of strides apart have the same remainder.\<close>

lemma mod_shift:
  fixes x y s :: size_t
  assumes "int (unat y) = int (unat x) + k * int (unat s)"
  shows "y mod s = x mod s"
proof -
  have "int (unat y) mod int (unat s) = int (unat x) mod int (unat s)"
    by (simp only: assms mod_mult_self1)
  then have "int (unat y mod unat s) = int (unat x mod unat s)"
    by (simp only: zmod_int)
  then have "unat (y mod s) = unat (x mod s)"
    by (simp only: unat_mod of_nat_eq_iff)
  then show ?thesis
    by (simp only: word_unat_eq_iff)
qed

text \<open>
  For offsets that are not negative as \<^verbatim>\<open>GLintptr\<close>, a difference of \<open>k\<close> strides
  between the signed offsets is the same difference between them as \<^verbatim>\<open>size_t\<close>.
\<close>

lemma nonnegative_shift:
  fixes x y s :: size_t
  assumes "0 \<le> sint x" and "0 \<le> sint y" and "sint y = sint x + k * int (unat s)"
  shows "int (unat y) = int (unat x) + k * int (unat s)"
proof -
  have "uint w = sint w" if "0 \<le> sint w" for w :: size_t
  proof -
    have "sint w < 2 ^ 64"
      using sint_lt [of w] by simp
    with that have "take_bit 64 (sint w) = sint w"
      by (simp add: take_bit_int_eq_self)
    then show ?thesis
      by (simp add: uint_sint)
  qed
  with assms have "uint y = uint x + k * int (unat s)"
    by simp
  then show ?thesis
    by simp
qed

text \<open>
  Claim C7, as amended. After a successful \<^verbatim>\<open>storeStaticAttribute\<close> or \<^verbatim>\<open>setAttribute\<close>
  with a descriptor, \<^verbatim>\<open>matchesAttribute\<close> returns true for every descriptor that has the
  same component type, component count, normalization flag, integer flag and stride and
  whose byte offset, read as an unsigned \<^verbatim>\<open>size_t\<close> the way the code reads it, differs by
  a whole multiple \<open>k\<close> of the stride, up or down; in particular for the descriptor
  itself. For two offsets that are not negative this is the plain difference of the
  offsets (\<open>nonnegative_shift\<close>). The stride is not 0: with a stride of 0 neither call
  succeeds.
\<close>

theorem signature_round_trip:
  assumes stored:
      "storeStaticAttribute factory V H assertsEnabled attrib binding start count instances
         sourceData this0 = Inr (Inr (), this) \<or>
       setAttribute H attrib binding this0 = Inr this"
    and same: "attrib_type attrib' = attrib_type attrib" "attrib_size attrib' = attrib_size attrib"
      "attrib_normalized attrib' = attrib_normalized attrib"
      "attrib_pureInteger attrib' = attrib_pureInteger attrib"
      "ComputeVertexAttributeStride H attrib' binding' =
       ComputeVertexAttributeStride H attrib binding"
    and shifted:
      "int (unat (ComputeVertexAttributeOffset H attrib' binding')) =
       int (unat (ComputeVertexAttributeOffset H attrib binding)) +
       k * int (unat (ComputeVertexAttributeStride H attrib binding))"
  shows "matchesAttribute H this attrib' binding' = Inr True \<and>
         matchesAttribute H this attrib binding = Inr True \<and>
         ComputeVertexAttributeStride H attrib binding \<noteq> 0"
proof -
  from stored obtain s0 where
    set: "AttributeSignature_set H attrib binding s0 = Inr (mSignature this)"
  proof
    assume "storeStaticAttribute factory V H assertsEnabled attrib binding start count instances
         sourceData this0 = Inr (Inr (), this)"
    from storeStaticAttribute_cases [OF this] that show thesis
      by auto
  next
    assume "setAttribute H attrib binding this0 = Inr this"
    with that show thesis
      by (auto simp add: setAttribute_def split: sum.splits)
  qed
  note sig = set_result [OF set]
  have "ComputeVertexAttributeOffset H attrib' binding' mod
          ComputeVertexAttributeStride H attrib binding =
        ComputeVertexAttributeOffset H attrib binding mod
          ComputeVertexAttributeStride H attrib binding"
    by (rule mod_shift [OF shifted])
  with sig same show ?thesis
    by (simp add: matchesAttribute_def AttributeSignature_matchesAttribute_def Let_def)
qed

text \<open>
  The spec's example: stride 12, stored with offset 0, asked with offset 36 (three
  strides further). First through \<^verbatim>\<open>storeStaticAttribute\<close>, which sizes the buffer to
  the 112 bytes of 100 vertices, writes them and sets the signature; then through
  \<^verbatim>\<open>setAttribute\<close>.
\<close>

theorem signature_round_trip_witness:
  "storeStaticAttribute byteFactory deviceBuffer pairFunctions True byteAttribute (12, 0) 0 100 0 []
     (staticInterface 0xFFFFFFFF AttributeSignature_ctor) =
     Inr (Inr (), sizedStaticInterface 112 0xFFFFFFFF (byteSignature 12 0)) \<and>
   matchesAttribute pairFunctions (sizedStaticInterface 112 0xFFFFFFFF (byteSignature 12 0))
     byteAttribute (12, 36) = Inr True \<and>
   matchesAttribute pairFunctions (sizedStaticInterface 112 0xFFFFFFFF (byteSignature 12 0))
     byteAttribute (12, 0) = Inr True \<and>
   setAttribute pairFunctions byteAttribute (12, 0) (staticInterface 0 AttributeSignature_ctor) =
     Inr (staticInterface 0 (byteSignature 12 0)) \<and>
   matchesAttribute pairFunctions (staticInterface 0 (byteSignature 12 0)) byteAttribute (12, 36) =
     Inr True \<and>
   matchesAttribute pairFunctions (staticInterface 0 (byteSignature 12 0)) byteAttribute (12, 0) =
     Inr True"
proof -
  have stored:
    "storeStaticAttribute byteFactory deviceBuffer pairFunctions True byteAttribute (12, 0) 0 100 0
       [] (staticInterface 0xFFFFFFFF AttributeSignature_ctor) =
     Inr (Inr (), sizedStaticInterface 112 0xFFFFFFFF (byteSignature 12 0))"
    by (simp add: storeStaticAttribute_def AttributeSignature_ctor_def GL_NONE_def
        sizedStaticInterface_def concrete_defs static_defs)
  have set:
    "setAttribute pairFunctions byteAttribute (12, 0) (staticInterface 0 AttributeSignature_ctor) =
       Inr (staticInterface 0 (byteSignature 12 0))"
    by (simp add: setAttribute_def AttributeSignature_ctor_def static_defs Let_def)
  have stride: "ComputeVertexAttributeStride pairFunctions byteAttribute (12, 36) =
      ComputeVertexAttributeStride pairFunctions byteAttribute (12, 0)"
    by (simp add: static_defs)
  have shifted:
    "int (unat (ComputeVertexAttributeOffset pairFunctions byteAttribute (12, 36))) =
     int (unat (ComputeVertexAttributeOffset pairFunctions byteAttribute (12, 0))) +
     3 * int (unat (ComputeVertexAttributeStride pairFunctions byteAttribute (12, 0)))"
    by (simp add: static_defs)
  from signature_round_trip [OF disjI1 [OF stored] refl refl refl refl stride shifted]
    signature_round_trip [OF disjI2 [OF set] refl refl refl refl stride shifted] stored set
  show ?thesis
    by simp
qed

text \<open>
  The claim as stated fails for offsets on both sides of 0. The offset is a signed
  \<^verbatim>\<open>GLintptr\<close> and the code takes its remainder after \<^verbatim>\<open>static_cast<size_t>\<close>: stored
  with stride 12 and offset 40 the signature keeps the remainder 4; the descriptor with
  offset -8, four strides below, is read as \<open>2^64 - 8\<close>, whose remainder is 8, and does
  not match.
\<close>

theorem signature_round_trip_counterexample:
  "setAttribute pairFunctions byteAttribute (12, 40) (staticInterface 0 AttributeSignature_ctor) =
     Inr (staticInterface 0 (byteSignature 12 4)) \<and>
   ComputeVertexAttributeStride pairFunctions byteAttribute (12, - 8) =
     ComputeVertexAttributeStride pairFunctions byteAttribute (12, 40) \<and>
   sint (ComputeVertexAttributeOffset pairFunctions byteAttribute (12, - 8)) =
     sint (ComputeVertexAttributeOffset pairFunctions byteAttribute (12, 40)) -
     4 * int (unat (ComputeVertexAttributeStride pairFunctions byteAttribute (12, 40))) \<and>
   matchesAttribute pairFunctions (staticInterface 0 (byteSignature 12 4)) byteAttribute (12, - 8) =
     Inr False"
  by (simp add: setAttribute_def AttributeSignature_ctor_def static_defs Let_def)

subsection \<open>C8: the end-to-end run\<close>

text \<open>
  Claim C8, as amended. On a streaming interface initialized with a capacity of 1024
  bytes, attributes of 100, 200 and 800 bytes, each reserved and then stored with sizes
  aligned to 16, get the offsets 0 and 112 for the first two stores; the third store
  finds the cursor at 320, where 800 more bytes do not fit but 800 bytes alone do, so it
  triggers a discard, not a grow: the capacity stays 1024, the cursor is reset to 0, and
  the third store returns offset 0 and leaves the cursor at 800.
\<close>

theorem scenario1024_run:
  "scenario1024 = (Inr [(Keep, 0), (Keep, 112), (Discard, 0)], streaming 1024 800 0)"
  by (simp add: scenario1024_def reserveThenStore_def reserveVertexSpace_def CheckedRoundUp_def
      initialize_def StreamingVertexBufferInterface_ctor_def VertexBufferInterface_ctor_def
      StreamingVertexBufferInterface.defs VertexBufferInterface.defs storeCall_def bytes_def
      concrete_defs)

text \<open>
  The claim as stated has the third store grow the buffer. It does not: the path of the
  third store is not the grow path, and the capacity after the run is still 1024 bytes.
\<close>

theorem scenario1024_counterexample:
  "fst scenario1024 \<noteq> Inr [(Keep, 0), (Keep, 112), (Grow, 0)] \<and>
   getBufferSize deviceBuffer (snd scenario1024) = 1024"
  by (simp add: scenario1024_def reserveThenStore_def reserveVertexSpace_def CheckedRoundUp_def
      initialize_def StreamingVertexBufferInterface_ctor_def VertexBufferInterface_ctor_def
      StreamingVertexBufferInterface.defs VertexBufferInterface.defs storeCall_def bytes_def
      concrete_defs)

subsection \<open>C9: serials\<close>

lemma constructed_serial:
  "i < n \<Longrightarrow> getSerial (constructed n next ! i) = next + of_nat i"
proof (induction n arbitrary: "next" i)
  case 0
  then show ?case by simp
next
  case (Suc n)
  show ?case
  proof (cases i)
    case 0
    then show ?thesis
      by (simp add: VertexBuffer_ctor_def updateSerial_def getSerial_def)
  next
    case (Suc j)
    with Suc.prems have "j < n" by simp
    from Suc.IH [OF this, of "next + 1"] Suc show ?thesis
      by (simp add: VertexBuffer_ctor_def updateSerial_def add.assoc)
  qed
qed

text \<open>
  Claim C9, as amended. Of the vertex buffers constructed during a process lifetime, any
  two with fewer than \<open>2^32\<close> constructions from the one to the other receive distinct
  serials. (The counter is an \<^verbatim>\<open>unsigned int\<close> and wraps: a serial comes back after
  \<open>2^32\<close> constructions.)
\<close>

theorem serials_distinct:
  assumes "i < j" and "j < n" and "j - i < 2 ^ 32"
  shows "getSerial (constructed n mNextSerial_init ! i) \<noteq>
         getSerial (constructed n mNextSerial_init ! j)"
proof
  assume eq: "getSerial (constructed n mNextSerial_init ! i) =
              getSerial (constructed n mNextSerial_init ! j)"
  from assms have "i < n" by simp
  from eq constructed_serial [OF \<open>i < n\<close>] constructed_serial [OF \<open>j < n\<close>]
  have "(of_nat i :: uint) = of_nat j"
    by simp
  then have "(of_nat (j - i) :: uint) = 0"
    using assms(1) by simp
  then have "2 ^ 32 dvd j - i"
    by (simp add: word_of_nat_eq_0_iff)
  with assms(1,3) show False
    by (auto dest: dvd_imp_le)
qed

text \<open>The first and the third of three buffers.\<close>

theorem serials_distinct_witness:
  "getSerial (constructed 3 mNextSerial_init ! 0) \<noteq>
   getSerial (constructed 3 mNextSerial_init ! 2)"
  by (rule serials_distinct) simp_all

text \<open>
  The claim as stated fails: the first buffer of a process and the one constructed
  \<open>2^32\<close> constructions later have the same serial.
\<close>

theorem serials_distinct_counterexample:
  "getSerial (constructed (2 ^ 32 + 1) mNextSerial_init ! 0) =
   getSerial (constructed (2 ^ 32 + 1) mNextSerial_init ! (2 ^ 32))"
  by (simp add: constructed_serial)

subsection \<open>C10: a failed static store keeps the signature\<close>

text \<open>
  Claim C10. If \<^verbatim>\<open>storeStaticAttribute\<close> returns an error, which it does when the space
  computation, the buffer resize or the underlying vertex-attribute write fails, the
  cached signature is left unchanged, so \<^verbatim>\<open>matchesAttribute\<close> gives the same answers after
  the call as before it. When it returns success, the space computation and the resize
  succeeded, the data was written at offset 0, and only then was the signature
  overwritten, with the signature of the descriptor.
\<close>

theorem storeStaticAttribute_signature:
  assumes "storeStaticAttribute factory V H assertsEnabled attrib binding start count instances
             sourceData this = Inr (r, this')"
  shows "case r of
           Inl e \<Rightarrow>
             mSignature this' = mSignature this \<and>
             (\<forall>a b. matchesAttribute H this' a b = matchesAttribute H this a b)
         | Inr u \<Rightarrow>
             (\<exists>spaceRequired this1 vb.
                getSpaceRequired factory attrib binding (scast count) instances =
                  Inr spaceRequired \<and>
                setBufferSize V spaceRequired this = (Inr (), this1) \<and>
                VertexBuffer_storeVertexAttributes V attrib binding GL_NONE start (scast count)
                  instances 0 sourceData (mVertexBuffer this1) = (Inr (), vb) \<and>
                AttributeSignature_set H attrib binding (mSignature this) =
                  Inr (mSignature this'))"
  using storeStaticAttribute_cases [OF assms]
  by (cases r) (simp_all add: matchesAttribute_def)

text \<open>
  A store of 100 vertices on a device that allocates at most 64 bytes: the resize fails
  and the signature, of stride 12, is still there.
\<close>

theorem storeStaticAttribute_signature_witness:
  "storeStaticAttribute byteFactory deviceBuffer pairFunctions True byteAttribute (1, 0) 0 100 0 []
     (staticInterface 64 (byteSignature 12 0)) =
   Inr (Inl (OutOfMemory ''Failed to allocate internal vertex buffer.''),
        staticInterface 64 (byteSignature 12 0)) \<and>
   mSignature (staticInterface 64 (byteSignature 12 0)) = byteSignature 12 0 \<and>
   matchesAttribute pairFunctions (staticInterface 64 (byteSignature 12 0)) byteAttribute (12, 36) =
     Inr True"
proof -
  have failed:
    "storeStaticAttribute byteFactory deviceBuffer pairFunctions True byteAttribute (1, 0) 0 100 0 []
       (staticInterface 64 (byteSignature 12 0)) =
     Inr (Inl (OutOfMemory ''Failed to allocate internal vertex buffer.''),
          staticInterface 64 (byteSignature 12 0))"
    by (simp add: storeStaticAttribute_def concrete_defs static_defs)
  have "matchesAttribute pairFunctions (staticInterface 64 (byteSignature 12 0)) byteAttribute
      (12, 36) = Inr True"
    by (simp add: static_defs Let_def)
  with storeStaticAttribute_signature [OF failed] failed show ?thesis
    by (simp add: staticInterface_def)
qed

end
